theory Spec2Isabelle
  imports Main
begin

section \<open>The streamed chat completion and its collaborators\<close>

text \<open>
  The repository is one function, \<^verbatim>\<open>get_streaming_response\<close> of
  \<^verbatim>\<open>streaming-function.py\<close>. It talks to two collaborators: the chat client
  (\<^verbatim>\<open>OpenAI()\<close>, \<^verbatim>\<open>client.chat.completions.create\<close>, the iteration of the
  returned stream) and the notebook display (\<^verbatim>\<open>display(Markdown(...))\<close>).
  Every call the function makes on a collaborator may raise; an exception is a value of
  type \<open>exn\<close> and a computation that may raise has a result of type \<open>exn + 'a\<close>.
  \<open>Exn\<close> is an exception of a collaborator, \<open>AttributeError\<close> the one Python raises
  when an attribute is read from \<^verbatim>\<open>None\<close>.
\<close>

datatype exn = Exn string | AttributeError

subsection \<open>Fragments of the streamed answer\<close>

text \<open>
  A chunk of the stream as the function reads it: \<^verbatim>\<open>chunk.choices\<close> is a list of
  choices (or nothing), \<^verbatim>\<open>choice.delta\<close> is a delta object (or nothing) and
  \<^verbatim>\<open>delta.content\<close> is a string or \<^verbatim>\<open>None\<close>.
\<close>

record choice_delta =
  content :: "string option"

record choice =
  delta :: "choice_delta option"

record chunk =
  choices :: "choice list option"

text \<open>
  The iterator protocol of the stream: each \<^verbatim>\<open>next\<close> ends the iteration, yields an
  element, or raises. The stream of the chat service is finite.
\<close>

datatype 'a iterator =
    StopIteration
  | Yield 'a "'a iterator"
  | Raise exn

subsection \<open>The outbound request\<close>

text \<open>
  A message is the Python dict \<^verbatim>\<open>{"role": ..., "content": ...}\<close>, kept as the list of
  its items. The request holds the keyword arguments of
  \<^verbatim>\<open>client.chat.completions.create\<close>.
\<close>

type_synonym message = "(string \<times> string) list"

record request =
  model :: string
  messages :: "message list"
  stream :: bool

text \<open>
  A client handle has an identity and answers a request with a stream, or raises.
\<close>

record client =
  client_id :: nat
  create :: "request \<Rightarrow> exn + chunk iterator"

text \<open>
  The surroundings of a call: what the constructor \<^verbatim>\<open>OpenAI()\<close> does (raise, or give a
  default handle) and what \<^verbatim>\<open>display(Markdown(s))\<close> does (raise, or return).
\<close>

record env =
  OpenAI :: "exn + client"
  display :: "string \<Rightarrow> exn option"

text \<open>
  The calls a run makes on its collaborators, in the order it makes them. \<open>CallClose\<close>
  stands for giving the stream handle back (\<^verbatim>\<open>close()\<close>, or leaving a
  \<^verbatim>\<open>with\<close> block).
\<close>

datatype call =
    CallOpenAI
  | CallCreate nat request
  | CallNext
  | CallClose
  | CallDisplay string

subsection \<open>The function\<close>

definition default_model :: string where
  "default_model = ''gpt-4o-mini''"

text \<open>
  The body of the loop:
  \<^verbatim>\<open>if chunk.choices: content = chunk.choices[0].delta.content; if content: acc += content\<close>.
  \<^verbatim>\<open>None\<close>, the empty list and the empty string are false in Python. The delta of
  the first choice is read without a test: \<^verbatim>\<open>.content\<close> of \<^verbatim>\<open>None\<close> raises.
\<close>

definition loop_body :: "chunk \<Rightarrow> string \<Rightarrow> exn + string" where
  "loop_body chunk accumulated_response =
     (case choices chunk of
        None \<Rightarrow> Inr accumulated_response
      | Some [] \<Rightarrow> Inr accumulated_response
      | Some (c # _) \<Rightarrow>
          (case delta c of
             None \<Rightarrow> Inl AttributeError
           | Some d \<Rightarrow>
               (case content d of
                  None \<Rightarrow> Inr accumulated_response
                | Some s \<Rightarrow>
                    if s = [] then Inr accumulated_response
                    else Inr (accumulated_response @ s))))"

text \<open>
  The loop \<^verbatim>\<open>for chunk in response_stream\<close>: it returns the accumulated text when
  the stream ends, or the exception that the stream or the body of the loop raised, and
  the calls of \<^verbatim>\<open>next\<close> it made.
\<close>

fun for_chunk :: "chunk iterator \<Rightarrow> string \<Rightarrow> (exn + string) \<times> call list" where
  "for_chunk StopIteration accumulated_response = (Inr accumulated_response, [CallNext])"
| "for_chunk (Raise e) accumulated_response = (Inl e, [CallNext])"
| "for_chunk (Yield chunk rest) accumulated_response =
     (case loop_body chunk accumulated_response of
        Inl x \<Rightarrow> (Inl x, [CallNext])
      | Inr accumulated_response' \<Rightarrow>
          (case for_chunk rest accumulated_response' of
             (r, calls) \<Rightarrow> (r, CallNext # calls)))"

definition build_messages :: "string \<Rightarrow> string \<Rightarrow> message list" where
  "build_messages prompt system_prompt =
     [[(''role'', ''system''), (''content'', system_prompt)],
      [(''role'', ''user''), (''content'', prompt)]]"

text \<open>
  The default of the parameter \<^verbatim>\<open>model: str = "gpt-4o-mini"\<close>.
\<close>

definition model_or_default :: "string option \<Rightarrow> string" where
  "model_or_default model_arg = (case model_arg of None \<Rightarrow> default_model | Some m \<Rightarrow> m)"

text \<open>
  The statement \<^verbatim>\<open>if client is None: client = OpenAI()\<close>.
\<close>

definition resolve_client :: "env \<Rightarrow> client option \<Rightarrow> (exn + client) \<times> call list" where
  "resolve_client e client_arg =
     (case client_arg of
        None \<Rightarrow> (OpenAI e, [CallOpenAI])
      | Some c \<Rightarrow> (Inr c, []))"

text \<open>
  The whole function. \<open>model_arg = None\<close> is a call that omits \<^verbatim>\<open>model\<close>;
  \<open>client_arg = None\<close> is a call that omits \<^verbatim>\<open>client\<close> or passes \<^verbatim>\<open>None\<close>.
  The result is the returned string or the exception that left the function, with the
  calls made on the collaborators.
\<close>

definition get_streaming_response ::
  "env \<Rightarrow> string \<Rightarrow> string \<Rightarrow> string option \<Rightarrow> client option \<Rightarrow> (exn + string) \<times> call list" where
  "get_streaming_response e prompt system_prompt model_arg client_arg =
     (case resolve_client e client_arg of
        (Inl x, calls0) \<Rightarrow> (Inl x, calls0)
      | (Inr cl, calls0) \<Rightarrow>
          (let req = \<lparr>model = model_or_default model_arg,
                      messages = build_messages prompt system_prompt, stream = True\<rparr>;
               calls1 = calls0 @ [CallCreate (client_id cl) req]
           in case create cl req of
                Inl x \<Rightarrow> (Inl x, calls1)
              | Inr response_stream \<Rightarrow>
                  (case for_chunk response_stream [] of
                     (Inl x, calls2) \<Rightarrow> (Inl x, calls1 @ calls2)
                   | (Inr accumulated_response, calls2) \<Rightarrow>
                       (let calls3 = calls1 @ calls2 @ [CallDisplay accumulated_response]
                        in case display e accumulated_response of
                             Some x \<Rightarrow> (Inl x, calls3)
                           | None \<Rightarrow> (Inr accumulated_response, calls3)))))"

subsection \<open>Reading a run\<close>

text \<open>
  What a list of calls says: the texts given to the display, the requests made and the
  handle each was made on, how often a default handle was constructed, how often
  \<^verbatim>\<open>next\<close> was called on the stream, and whether the stream handle was given back.
\<close>

fun displayed :: "call list \<Rightarrow> string list" where
  "displayed [] = []"
| "displayed (CallDisplay s # calls) = s # displayed calls"
| "displayed (_ # calls) = displayed calls"

fun requests :: "call list \<Rightarrow> (nat \<times> request) list" where
  "requests [] = []"
| "requests (CallCreate i r # calls) = (i, r) # requests calls"
| "requests (_ # calls) = requests calls"


fun nexts :: "call list \<Rightarrow> nat" where
  "nexts [] = 0"
| "nexts (CallNext # calls) = Suc (nexts calls)"
| "nexts (_ # calls) = nexts calls"

fun released :: "call list \<Rightarrow> bool" where
  "released [] = False"
| "released (CallClose # calls) = True"
| "released (_ # calls) = released calls"

subsection \<open>Streams and fragments of the specification\<close>

text \<open>
  A stream that delivers the chunks of a list and ends, and one that delivers them and
  then raises.
\<close>

fun stream_of :: "'a list \<Rightarrow> 'a iterator" where
  "stream_of [] = StopIteration"
| "stream_of (x # xs) = Yield x (stream_of xs)"

fun failing_stream :: "'a list \<Rightarrow> exn \<Rightarrow> 'a iterator" where
  "failing_stream [] x = Raise x"
| "failing_stream (c # cs) x = Yield c (failing_stream cs x)"

text \<open>
  The specification speaks of the text delta of a fragment. \<open>text_chunk d\<close> is the
  fragment with the one text delta \<open>d\<close>; \<open>fragment_delta\<close> is the text delta of any
  fragment: the text of its first choice, and the empty text when there is no choice, no
  delta object or no text.
\<close>

definition text_chunk :: "string \<Rightarrow> chunk" where
  "text_chunk d = \<lparr>choices = Some [\<lparr>delta = Some \<lparr>content = Some d\<rparr>\<rparr>]\<rparr>"

definition fragment_delta :: "chunk \<Rightarrow> string" where
  "fragment_delta c =
     (case choices c of
        None \<Rightarrow> []
      | Some [] \<Rightarrow> []
      | Some (ch # _) \<Rightarrow>
          (case delta ch of
             None \<Rightarrow> []
           | Some d \<Rightarrow> (case content d of None \<Rightarrow> [] | Some t \<Rightarrow> t)))"

text \<open>
  A fragment as the client library types it: its first choice, when there is one, has a
  delta object.
\<close>

definition delta_present :: "chunk \<Rightarrow> bool" where
  "delta_present c =
     (case choices c of
        None \<Rightarrow> True
      | Some [] \<Rightarrow> True
      | Some (ch # _) \<Rightarrow> (case delta ch of None \<Rightarrow> False | Some d \<Rightarrow> True))"

text \<open>
  A fragment carrying no text delta or no choices, in the words of the specification:
  no choices, or a first choice that gives no text, be it for want of a delta object, of a
  content, or of characters in the content.
\<close>

definition no_text_delta :: "chunk \<Rightarrow> bool" where
  "no_text_delta c =
     (case choices c of
        None \<Rightarrow> True
      | Some [] \<Rightarrow> True
      | Some (ch # _) \<Rightarrow>
          (case delta ch of
             None \<Rightarrow> True
           | Some d \<Rightarrow> content d = None \<or> content d = Some []))"

definition carries_text :: "chunk \<Rightarrow> bool" where
  "carries_text c = (\<not> no_text_delta c)"

text \<open>
  \<open>no_delta\<close> is such a fragment with the delta object in its place: no choices, or a
  first choice whose delta has no content or an empty one.
\<close>

definition no_delta :: "chunk \<Rightarrow> bool" where
  "no_delta c =
     (case choices c of
        None \<Rightarrow> True
      | Some [] \<Rightarrow> True
      | Some (ch # _) \<Rightarrow>
          (case delta ch of
             None \<Rightarrow> False
           | Some d \<Rightarrow> content d = None \<or> content d = Some []))"

text \<open>
  A fragment cut down to its first choice.
\<close>

definition first_choice_only :: "chunk \<Rightarrow> chunk" where
  "first_choice_only c = c\<lparr>choices := map_option (take 1) (choices c)\<rparr>"

text \<open>
  The request a call sends.
\<close>

definition outbound_request :: "string \<Rightarrow> string \<Rightarrow> string option \<Rightarrow> request" where
  "outbound_request prompt system_prompt model_arg =
     \<lparr>model = model_or_default model_arg,
      messages = build_messages prompt system_prompt, stream = True\<rparr>"

subsection \<open>Example collaborators\<close>

text \<open>
  The scenario of the specification: the fragments \<^verbatim>\<open>"Hel", "", "lo, ", "World!"\<close>, a
  handle that answers every request with them, a display that returns, and a constructor
  that gives a default handle. A second handle drops the connection after the first
  fragment, a third one delivers fragments without text.
\<close>

definition example_chunks :: "chunk list" where
  "example_chunks = map text_chunk [''Hel'', '''', ''lo, '', ''World!'']"

definition example_create :: "request \<Rightarrow> exn + chunk iterator" where
  "example_create req = Inr (stream_of example_chunks)"

definition example_client :: client where
  "example_client = \<lparr>client_id = 1, create = example_create\<rparr>"

definition dropping_create :: "request \<Rightarrow> exn + chunk iterator" where
  "dropping_create req = Inr (failing_stream [text_chunk ''Hel''] (Exn ''connection dropped''))"

definition dropping_client :: client where
  "dropping_client = \<lparr>client_id = 2, create = dropping_create\<rparr>"

definition silent_chunks :: "chunk list" where
  "silent_chunks =
     [\<lparr>choices = None\<rparr>, \<lparr>choices = Some []\<rparr>,
      \<lparr>choices = Some [\<lparr>delta = Some \<lparr>content = None\<rparr>\<rparr>]\<rparr>, text_chunk '''']"

definition silent_create :: "request \<Rightarrow> exn + chunk iterator" where
  "silent_create req = Inr (stream_of silent_chunks)"

definition silent_client :: client where
  "silent_client = \<lparr>client_id = 3, create = silent_create\<rparr>"

definition default_create :: "request \<Rightarrow> exn + chunk iterator" where
  "default_create req = Inr (stream_of [text_chunk ''ok''])"

definition default_client :: client where
  "default_client = \<lparr>client_id = 0, create = default_create\<rparr>"

definition quiet_display :: "string \<Rightarrow> exn option" where
  "quiet_display s = None"

definition example_env :: env where
  "example_env = \<lparr>OpenAI = Inr default_client, display = quiet_display\<rparr>"

text \<open>
  A handle whose fragments carry additional choices with other text, a handle that
  delivers the scenario without its empty fragment, and surroundings whose constructor
  gives the handle with the additional choices.
\<close>

definition extra_choice_chunks :: "chunk list" where
  "extra_choice_chunks =
     [\<lparr>choices = Some [\<lparr>delta = Some \<lparr>content = Some ''Hel''\<rparr>\<rparr>,
                        \<lparr>delta = Some \<lparr>content = Some ''XXX''\<rparr>\<rparr>]\<rparr>,
      \<lparr>choices = Some [\<lparr>delta = Some \<lparr>content = Some ''''\<rparr>\<rparr>,
                        \<lparr>delta = Some \<lparr>content = Some ''YYY''\<rparr>\<rparr>]\<rparr>,
      \<lparr>choices = Some [\<lparr>delta = Some \<lparr>content = Some ''lo, ''\<rparr>\<rparr>]\<rparr>,
      \<lparr>choices = Some [\<lparr>delta = Some \<lparr>content = Some ''World!''\<rparr>\<rparr>,
                        \<lparr>delta = None\<rparr>,
                        \<lparr>delta = Some \<lparr>content = Some ''ZZZ''\<rparr>\<rparr>]\<rparr>]"

definition extra_choice_create :: "request \<Rightarrow> exn + chunk iterator" where
  "extra_choice_create req = Inr (stream_of extra_choice_chunks)"

definition extra_choice_client :: client where
  "extra_choice_client = \<lparr>client_id = 4, create = extra_choice_create\<rparr>"

definition compact_create :: "request \<Rightarrow> exn + chunk iterator" where
  "compact_create req = Inr (stream_of (map text_chunk [''Hel'', ''lo, '', ''World!'']))"

definition compact_client :: client where
  "compact_client = \<lparr>client_id = 5, create = compact_create\<rparr>"

definition relay_env :: env where
  "relay_env = \<lparr>OpenAI = Inr extra_choice_client, display = quiet_display\<rparr>"

text \<open>
  A fragment whose first choice has no delta object, a handle that delivers it after the
  fragment \<^verbatim>\<open>"Hel"\<close>, and a handle that delivers the fragment \<^verbatim>\<open>"Hel"\<close> alone.
\<close>

definition deltaless_chunk :: chunk where
  "deltaless_chunk = \<lparr>choices = Some [\<lparr>delta = None\<rparr>]\<rparr>"

definition broken_chunks :: "chunk list" where
  "broken_chunks = [text_chunk ''Hel'', deltaless_chunk]"

definition broken_create :: "request \<Rightarrow> exn + chunk iterator" where
  "broken_create req = Inr (stream_of broken_chunks)"

definition broken_client :: client where
  "broken_client = \<lparr>client_id = 6, create = broken_create\<rparr>"

definition hel_create :: "request \<Rightarrow> exn + chunk iterator" where
  "hel_create req = Inr (stream_of [text_chunk ''Hel''])"

definition hel_client :: client where
  "hel_client = \<lparr>client_id = 7, create = hel_create\<rparr>"

section \<open>Properties of the loop and of a run\<close>

lemmas example_defs =
  example_env_def example_client_def example_create_def example_chunks_def
  dropping_client_def dropping_create_def silent_client_def silent_create_def silent_chunks_def
  default_client_def default_create_def quiet_display_def text_chunk_def
  resolve_client_def outbound_request_def model_or_default_def default_model_def
  build_messages_def fragment_delta_def no_delta_def first_choice_only_def
  extra_choice_client_def extra_choice_create_def extra_choice_chunks_def
  compact_client_def compact_create_def relay_env_def
  delta_present_def no_text_delta_def carries_text_def deltaless_chunk_def broken_chunks_def
  broken_create_def broken_client_def hel_create_def hel_client_def

lemma displayed_append: "displayed (xs @ ys) = displayed xs @ displayed ys"
  by (induction xs rule: displayed.induct) simp_all

lemma requests_append: "requests (xs @ ys) = requests xs @ requests ys"
  by (induction xs rule: requests.induct) simp_all


lemma nexts_append: "nexts (xs @ ys) = nexts xs + nexts ys"
  by (induction xs rule: nexts.induct) simp_all

lemma released_append: "released (xs @ ys) = (released xs \<or> released ys)"
  by (induction xs rule: released.induct) simp_all

lemma displayed_replicate_next: "displayed (replicate n CallNext) = []"
  by (induction n) simp_all

lemma requests_replicate_next: "requests (replicate n CallNext) = []"
  by (induction n) simp_all


lemma released_replicate_next: "released (replicate n CallNext) = False"
  by (induction n) simp_all

lemma nexts_replicate_next: "nexts (replicate n CallNext) = n"
  by (induction n) simp_all

subsection \<open>The body of the loop\<close>

lemma loop_body_delta: "delta_present c \<Longrightarrow> loop_body c acc = Inr (acc @ fragment_delta c)"
  by (auto simp: loop_body_def fragment_delta_def delta_present_def
      split: option.splits list.splits)

lemma loop_body_deltaless: "\<not> delta_present c \<Longrightarrow> loop_body c acc = Inl AttributeError"
  by (auto simp: loop_body_def delta_present_def split: option.splits list.splits)

lemma loop_body_no_delta: "no_delta c \<Longrightarrow> loop_body c acc = Inr acc"
  by (auto simp: loop_body_def no_delta_def split: option.splits list.splits)

lemma loop_body_first_choice: "loop_body (first_choice_only c) acc = loop_body c acc"
  by (simp add: loop_body_def first_choice_only_def split: option.splits list.splits)


lemma no_delta_fragment_delta: "no_delta c \<Longrightarrow> fragment_delta c = []"
  by (auto simp: no_delta_def fragment_delta_def split: option.splits list.splits)



lemma concat_filter_delta:
  "concat (map fragment_delta (filter (\<lambda>c. \<not> no_delta c) cs)) = concat (map fragment_delta cs)"
  by (induction cs) (simp_all add: no_delta_fragment_delta)

lemma fragment_delta_text_chunk: "fragment_delta (text_chunk d) = d"
  by (simp add: fragment_delta_def text_chunk_def)

subsection \<open>The loop\<close>

lemma for_chunk_stream_of:
  "list_all delta_present cs \<Longrightarrow>
   for_chunk (stream_of cs) acc =
     (Inr (acc @ concat (map fragment_delta cs)), replicate (Suc (length cs)) CallNext)"
  by (induction cs arbitrary: acc) (simp_all add: loop_body_delta)

lemma for_chunk_failing_stream:
  "list_all delta_present cs \<Longrightarrow>
   for_chunk (failing_stream cs x) acc = (Inl x, replicate (Suc (length cs)) CallNext)"
  by (induction cs arbitrary: acc) (simp_all add: loop_body_delta)

lemma for_chunk_calls: "snd (for_chunk s acc) = replicate (nexts (snd (for_chunk s acc))) CallNext"
proof (induction s arbitrary: acc)
  case (Yield c rest)
  show ?case
  proof (cases "loop_body c acc")
    case (Inl x)
    then show ?thesis by simp
  next
    case (Inr acc')
    obtain r calls where rc: "for_chunk rest acc' = (r, calls)"
      by (cases "for_chunk rest acc'")
    with Yield [of acc'] Inr show ?thesis by simp
  qed
qed simp_all

lemma for_chunk_requests: "for_chunk s acc = (r, calls) \<Longrightarrow> requests calls = []"
  using for_chunk_calls [of s acc] requests_replicate_next [of "nexts calls"] by simp


lemma for_chunk_released: "for_chunk s acc = (r, calls) \<Longrightarrow> \<not> released calls"
  using for_chunk_calls [of s acc] released_replicate_next [of "nexts calls"] by simp

lemma for_chunk_displayed: "for_chunk s acc = (r, calls) \<Longrightarrow> displayed calls = []"
  using for_chunk_calls [of s acc] displayed_replicate_next [of "nexts calls"] by simp

lemma for_chunk_filter_no_delta:
  "fst (for_chunk (stream_of (filter (\<lambda>c. \<not> no_delta c) cs)) acc)
     = fst (for_chunk (stream_of cs) acc)"
proof (induction cs arbitrary: acc)
  case Nil
  show ?case by simp
next
  case (Cons c cs)
  show ?case
  proof (cases "no_delta c")
    case True
    then show ?thesis
      using Cons [of acc] by (simp add: loop_body_no_delta split_beta)
  next
    case False
    show ?thesis
    proof (cases "loop_body c acc")
      case (Inl x)
      with False show ?thesis by simp
    next
      case (Inr acc')
      with False Cons [of acc'] show ?thesis by (simp add: split_beta)
    qed
  qed
qed

lemma for_chunk_first_choice:
  "for_chunk (stream_of (map first_choice_only cs)) acc = for_chunk (stream_of cs) acc"
  by (induction cs arbitrary: acc) (simp_all add: loop_body_first_choice split: sum.splits)

subsection \<open>A run\<close>

lemma resolve_client_split:
  "fst (resolve_client e client_arg) = Inr cl \<Longrightarrow>
   resolve_client e client_arg = (Inr cl, snd (resolve_client e client_arg))"
  by (cases "resolve_client e client_arg") simp

lemma result_run_stream:
  assumes "fst (resolve_client e client_arg) = Inr cl"
    and "create cl (outbound_request p sp m) = Inr s"
  shows "fst (get_streaming_response e p sp m client_arg) =
           (case fst (for_chunk s []) of
              Inl x \<Rightarrow> Inl x
            | Inr acc \<Rightarrow> (case display e acc of None \<Rightarrow> Inr acc | Some x \<Rightarrow> Inl x))"
proof -
  obtain calls0 where rs: "resolve_client e client_arg = (Inr cl, calls0)"
    using assms(1) by (cases "resolve_client e client_arg") simp
  obtain r calls where rc: "for_chunk s [] = (r, calls)"
    by (cases "for_chunk s []")
  show ?thesis
    using rs assms(2) rc
    by (simp add: get_streaming_response_def outbound_request_def Let_def
        split: option.splits sum.splits)
qed

lemma displayed_run_stream:
  assumes "fst (resolve_client e client_arg) = Inr cl"
    and "create cl (outbound_request p sp m) = Inr s"
  shows "displayed (snd (get_streaming_response e p sp m client_arg)) =
           (case fst (for_chunk s []) of Inl x \<Rightarrow> [] | Inr acc \<Rightarrow> [acc])"
proof -
  obtain calls0 where rs: "resolve_client e client_arg = (Inr cl, calls0)"
    using assms(1) by (cases "resolve_client e client_arg") simp
  obtain r calls where rc: "for_chunk s [] = (r, calls)"
    by (cases "for_chunk s []")
  have no_display: "displayed calls0 = []"
    using rs by (auto simp: resolve_client_def split: option.splits)
  show ?thesis
    using rs assms(2) rc for_chunk_displayed [OF rc] no_display
    by (simp add: get_streaming_response_def outbound_request_def Let_def displayed_append
        split: option.splits sum.splits)
qed

lemma run_complete:
  assumes "resolve_client e client_arg = (Inr cl, calls0)"
    and "create cl (outbound_request p sp m) = Inr (stream_of cs)"
    and "list_all delta_present cs"
  shows "get_streaming_response e p sp m client_arg =
     ((case display e (concat (map fragment_delta cs)) of
         None \<Rightarrow> Inr (concat (map fragment_delta cs)) | Some x \<Rightarrow> Inl x),
      calls0 @ [CallCreate (client_id cl) (outbound_request p sp m)]
        @ replicate (Suc (length cs)) CallNext
        @ [CallDisplay (concat (map fragment_delta cs))])"
  using assms(1,2)
  by (simp add: get_streaming_response_def outbound_request_def Let_def
      for_chunk_stream_of [OF assms(3)] split: option.splits)

lemma run_failing:
  assumes "resolve_client e client_arg = (Inr cl, calls0)"
    and "create cl (outbound_request p sp m) = Inr (failing_stream cs x)"
    and "list_all delta_present cs"
  shows "get_streaming_response e p sp m client_arg =
     (Inl x, calls0 @ [CallCreate (client_id cl) (outbound_request p sp m)]
        @ replicate (Suc (length cs)) CallNext)"
  using assms(1,2)
  by (simp add: get_streaming_response_def outbound_request_def Let_def
      for_chunk_failing_stream [OF assms(3)])

lemma run_rejected:
  assumes "resolve_client e client_arg = (Inr cl, calls0)"
    and "create cl (outbound_request p sp m) = Inl x"
  shows "get_streaming_response e p sp m client_arg =
     (Inl x, calls0 @ [CallCreate (client_id cl) (outbound_request p sp m)])"
  using assms
  by (simp add: get_streaming_response_def outbound_request_def Let_def)

lemma run_no_client:
  assumes "resolve_client e client_arg = (Inl x, calls0)"
  shows "get_streaming_response e p sp m client_arg = (Inl x, calls0)"
  using assms by (simp add: get_streaming_response_def)

lemma requests_run:
  "requests (snd (get_streaming_response e p sp m client_arg)) =
     (case fst (resolve_client e client_arg) of
        Inl x \<Rightarrow> []
      | Inr cl \<Rightarrow> [(client_id cl, outbound_request p sp m)])"
  by (auto simp: get_streaming_response_def resolve_client_def outbound_request_def Let_def
      requests_append for_chunk_requests
      split: option.splits sum.splits prod.splits)


lemma released_run: "\<not> released (snd (get_streaming_response e p sp m client_arg))"
  by (auto simp: get_streaming_response_def resolve_client_def Let_def
      released_append for_chunk_released
      split: option.splits sum.splits prod.splits)

lemma displayed_run_complete:
  assumes "fst (resolve_client e client_arg) = Inr cl"
    and "create cl (outbound_request p sp m) = Inr (stream_of cs)"
    and "list_all delta_present cs"
  shows "displayed (snd (get_streaming_response e p sp m client_arg)) =
           [concat (map fragment_delta cs)]"
  using displayed_run_stream [OF assms(1,2)] for_chunk_stream_of [OF assms(3), of "[]"]
  by simp

lemma result_run_complete:
  assumes "fst (resolve_client e client_arg) = Inr cl"
    and "create cl (outbound_request p sp m) = Inr (stream_of cs)"
    and "list_all delta_present cs"
  shows "fst (get_streaming_response e p sp m client_arg) =
           (case display e (concat (map fragment_delta cs)) of
              None \<Rightarrow> Inr (concat (map fragment_delta cs)) | Some x \<Rightarrow> Inl x)"
  using run_complete [OF resolve_client_split [OF assms(1)] assms(2,3)] by simp

lemma nexts_run_complete:
  assumes "fst (resolve_client e client_arg) = Inr cl"
    and "create cl (outbound_request p sp m) = Inr (stream_of cs)"
    and "list_all delta_present cs"
  shows "nexts (snd (get_streaming_response e p sp m client_arg)) = Suc (length cs)"
  using run_complete [OF resolve_client_split [OF assms(1)] assms(2,3)]
  by (simp add: nexts_append nexts_replicate_next resolve_client_def
      split: option.splits)

lemma calls_run_complete:
  assumes "fst (resolve_client e client_arg) = Inr cl"
    and "create cl (outbound_request p sp m) = Inr (stream_of cs)"
    and "list_all delta_present cs"
  shows "snd (get_streaming_response e p sp m client_arg) =
           snd (resolve_client e client_arg)
             @ [CallCreate (client_id cl) (outbound_request p sp m)]
             @ replicate (Suc (length cs)) CallNext
             @ [CallDisplay (concat (map fragment_delta cs))]"
  using run_complete [OF resolve_client_split [OF assms(1)] assms(2,3)] by simp

lemma displayed_run_failing:
  assumes "fst (resolve_client e client_arg) = Inr cl"
    and "create cl (outbound_request p sp m) = Inr (failing_stream cs x)"
    and "list_all delta_present cs"
  shows "displayed (snd (get_streaming_response e p sp m client_arg)) = []"
  using displayed_run_stream [OF assms(1,2)] for_chunk_failing_stream [OF assms(3), of x "[]"]
  by simp

lemma displayed_run_rejected:
  assumes "fst (resolve_client e client_arg) = Inr cl"
    and "create cl (outbound_request p sp m) = Inl x"
  shows "displayed (snd (get_streaming_response e p sp m client_arg)) = []"
  using run_rejected [OF resolve_client_split [OF assms(1)] assms(2)]
  by (simp add: displayed_append resolve_client_def split: option.splits)

section \<open>The claims of the specification\<close>

text \<open>
  Claim C1: for every finite sequence of fragments whose text deltas are \<open>ds\<close>
  in arrival order, delivered by the handle the call uses, with a display that returns,
  \<^verbatim>\<open>get_streaming_response\<close> returns exactly \<open>concat ds\<close>, the deltas in
  their order with nothing added, dropped or moved, and gives that text to the display.
  The fragments are as the client library types them: a first choice has a delta object.
\<close>

theorem order_preservation:
  assumes "fst (resolve_client e client_arg) = Inr cl"
    and "create cl (outbound_request prompt system_prompt model_arg) = Inr (stream_of cs)"
    and "list_all delta_present cs"
    and "map fragment_delta cs = ds"
    and "display e (concat ds) = None"
  shows "fst (get_streaming_response e prompt system_prompt model_arg client_arg) = Inr (concat ds)
       \<and> displayed (snd (get_streaming_response e prompt system_prompt model_arg client_arg)) = [concat ds]"
  using assms result_run_complete [OF assms(1,2,3)] displayed_run_complete [OF assms(1,2,3)]
  by auto

text \<open>
  The scenario of the specification: the fragments \<^verbatim>\<open>"Hel", "", "lo, ", "World!"\<close>
  give \<^verbatim>\<open>"Hello, World!"\<close>.
\<close>

theorem order_preservation_witness:
  "fst (resolve_client example_env (Some example_client)) = Inr example_client
   \<and> create example_client (outbound_request ''Say hello'' ''Be brief'' None)
       = Inr (stream_of (map text_chunk [''Hel'', '''', ''lo, '', ''World!'']))
   \<and> list_all delta_present (map text_chunk [''Hel'', '''', ''lo, '', ''World!''])
   \<and> map fragment_delta (map text_chunk [''Hel'', '''', ''lo, '', ''World!''])
       = [''Hel'', '''', ''lo, '', ''World!'']
   \<and> display example_env ''Hello, World!'' = None
   \<and> fst (get_streaming_response example_env ''Say hello'' ''Be brief'' None (Some example_client))
       = Inr ''Hello, World!''
   \<and> displayed (snd (get_streaming_response example_env ''Say hello'' ''Be brief'' None
         (Some example_client))) = [''Hello, World!'']"
  using order_preservation [of example_env "Some example_client" example_client
      "''Say hello''" "''Be brief''" None "map text_chunk [''Hel'', '''', ''lo, '', ''World!'']"
      "[''Hel'', '''', ''lo, '', ''World!'']"]
  by (simp add: example_defs)

text \<open>
  Claim C2: for any prompt and system prompt, the message list of the request a call makes
  is exactly two messages, the first with role \<^verbatim>\<open>system\<close> and the system prompt as
  content, the second with role \<^verbatim>\<open>user\<close> and the prompt as content. A call makes
  one request, and none when the constructor of the default handle raised.
\<close>

theorem message_shape:
  "map (\<lambda>(i, r). messages r)
       (requests (snd (get_streaming_response e prompt system_prompt model_arg client_arg))) =
     (case fst (resolve_client e client_arg) of
        Inl x \<Rightarrow> []
      | Inr cl \<Rightarrow> [[[(''role'', ''system''), (''content'', system_prompt)],
                    [(''role'', ''user''), (''content'', prompt)]]])"
  by (simp add: requests_run outbound_request_def build_messages_def split: sum.splits)

text \<open>
  Both texts empty, on the default handle.
\<close>

theorem message_shape_witness:
  "map (\<lambda>(i, r). messages r)
       (requests (snd (get_streaming_response example_env '''' '''' (Some ''gpt-4'') None))) =
     [[[(''role'', ''system''), (''content'', '''')], [(''role'', ''user''), (''content'', '''')]]]"
  using message_shape [of example_env "''''" "''''" "Some ''gpt-4''" None]
  by (simp add: example_defs)

text \<open>
  Claim C3: if the streaming call raises, at the request or after the stream has delivered
  any number of fragments, the function returns no value: the exception leaves it
  unchanged, the text accumulated so far is dropped, and the display is never called.
\<close>

theorem failure_propagation:
  assumes "fst (resolve_client e client_arg) = Inr cl"
    and "create cl (outbound_request prompt system_prompt model_arg) = Inl x
       \<or> (create cl (outbound_request prompt system_prompt model_arg) = Inr (failing_stream cs x)
          \<and> list_all delta_present cs)"
  shows "fst (get_streaming_response e prompt system_prompt model_arg client_arg) = Inl x
       \<and> displayed (snd (get_streaming_response e prompt system_prompt model_arg client_arg)) = []"
  using assms(2)
proof
  assume rejected: "create cl (outbound_request prompt system_prompt model_arg) = Inl x"
  show ?thesis
    using run_rejected [OF resolve_client_split [OF assms(1)] rejected]
      displayed_run_rejected [OF assms(1) rejected]
    by simp
next
  assume "create cl (outbound_request prompt system_prompt model_arg)
      = Inr (failing_stream cs x) \<and> list_all delta_present cs"
  then have dropped: "create cl (outbound_request prompt system_prompt model_arg)
      = Inr (failing_stream cs x)" and typed: "list_all delta_present cs"
    by simp_all
  show ?thesis
    using run_failing [OF resolve_client_split [OF assms(1)] dropped typed]
      displayed_run_failing [OF assms(1) dropped typed]
    by simp
qed

text \<open>
  A connection that drops after the fragment \<^verbatim>\<open>"Hel"\<close>.
\<close>

theorem failure_propagation_witness:
  "fst (resolve_client example_env (Some dropping_client)) = Inr dropping_client
   \<and> create dropping_client (outbound_request ''Say hello'' ''Be brief'' None)
       = Inr (failing_stream [text_chunk ''Hel''] (Exn ''connection dropped''))
   \<and> list_all delta_present [text_chunk ''Hel'']
   \<and> fst (get_streaming_response example_env ''Say hello'' ''Be brief'' None (Some dropping_client))
       = Inl (Exn ''connection dropped'')
   \<and> displayed (snd (get_streaming_response example_env ''Say hello'' ''Be brief'' None
         (Some dropping_client))) = []"
  using failure_propagation [of example_env "Some dropping_client" dropping_client
      "''Say hello''" "''Be brief''" None "Exn ''connection dropped''" "[text_chunk ''Hel'']"]
  by (simp add: example_defs)

text \<open>
  Claim C4: as stated, the claim fails. A fragment whose first choice has no delta object
  carries no text delta, and the loop raises on it: the run on the fragments
  \<^verbatim>\<open>"Hel"\<close> and that one ends with \<^verbatim>\<open>AttributeError\<close> and displays nothing,
  the run on the sequence without it returns \<^verbatim>\<open>"Hel"\<close>.
\<close>

theorem empty_fragment_tolerance_counterexample:
  "no_text_delta deltaless_chunk
   \<and> loop_body deltaless_chunk ''Hel'' = Inl AttributeError
   \<and> create broken_client (outbound_request ''Say hello'' ''Be brief'' None)
       = Inr (stream_of broken_chunks)
   \<and> create hel_client (outbound_request ''Say hello'' ''Be brief'' None)
       = Inr (stream_of (filter carries_text broken_chunks))
   \<and> fst (get_streaming_response example_env ''Say hello'' ''Be brief'' None (Some broken_client))
       = Inl AttributeError
   \<and> displayed (snd (get_streaming_response example_env ''Say hello'' ''Be brief'' None
         (Some broken_client))) = []
   \<and> fst (get_streaming_response example_env ''Say hello'' ''Be brief'' None (Some hel_client))
       = Inr ''Hel''"
  by (simp add: example_defs get_streaming_response_def loop_body_def)

text \<open>
  Claim C4: as amended: fragments with no choices, and fragments whose first choice has a
  delta with no content or an empty content, add nothing and raise no error. The body of the
  loop leaves the accumulated text as it is on each of them; a run on the whole sequence of
  fragments and a run on the sequence without them return the same value and display the
  same text; and when every first choice has its delta object, the loop ends without an
  exception, with the text of the fragments that are left.
\<close>

theorem empty_fragment_tolerance:
  assumes "fst (resolve_client e client_arg) = Inr cl"
    and "fst (resolve_client e client_arg') = Inr cl'"
    and "create cl (outbound_request prompt system_prompt model_arg) = Inr (stream_of cs)"
    and "create cl' (outbound_request prompt system_prompt model_arg)
           = Inr (stream_of (filter (\<lambda>c. \<not> no_delta c) cs))"
  shows "fst (get_streaming_response e prompt system_prompt model_arg client_arg)
           = fst (get_streaming_response e prompt system_prompt model_arg client_arg')
       \<and> displayed (snd (get_streaming_response e prompt system_prompt model_arg client_arg))
           = displayed (snd (get_streaming_response e prompt system_prompt model_arg client_arg'))
       \<and> (\<forall>c \<in> set cs. no_delta c \<longrightarrow> (\<forall>acc. loop_body c acc = Inr acc))
       \<and> (list_all delta_present cs \<longrightarrow>
            fst (for_chunk (stream_of cs) [])
              = Inr (concat (map fragment_delta (filter (\<lambda>c. \<not> no_delta c) cs))))"
proof -
  have same: "fst (for_chunk (stream_of (filter (\<lambda>c. \<not> no_delta c) cs)) [])
      = fst (for_chunk (stream_of cs) [])"
    by (rule for_chunk_filter_no_delta)
  have result: "fst (get_streaming_response e prompt system_prompt model_arg client_arg)
      = fst (get_streaming_response e prompt system_prompt model_arg client_arg')"
    using result_run_stream [OF assms(1,3)] result_run_stream [OF assms(2,4)]
    by (simp only: same)
  have shown: "displayed (snd (get_streaming_response e prompt system_prompt model_arg client_arg))
      = displayed (snd (get_streaming_response e prompt system_prompt model_arg client_arg'))"
    using displayed_run_stream [OF assms(1,3)] displayed_run_stream [OF assms(2,4)]
    by (simp only: same)
  have body: "\<forall>c \<in> set cs. no_delta c \<longrightarrow> (\<forall>acc. loop_body c acc = Inr acc)"
    by (simp add: loop_body_no_delta)
  have loop: "list_all delta_present cs \<longrightarrow>
      fst (for_chunk (stream_of cs) [])
        = Inr (concat (map fragment_delta (filter (\<lambda>c. \<not> no_delta c) cs)))"
    by (simp add: for_chunk_stream_of concat_filter_delta)
  from result shown body loop show ?thesis by blast
qed

text \<open>
  The scenario with and without its empty fragment.
\<close>

theorem empty_fragment_tolerance_witness:
  "fst (resolve_client example_env (Some example_client)) = Inr example_client
   \<and> fst (resolve_client example_env (Some compact_client)) = Inr compact_client
   \<and> create example_client (outbound_request ''Say hello'' ''Be brief'' None)
       = Inr (stream_of example_chunks)
   \<and> filter (\<lambda>c. \<not> no_delta c) example_chunks = map text_chunk [''Hel'', ''lo, '', ''World!'']
   \<and> create compact_client (outbound_request ''Say hello'' ''Be brief'' None)
       = Inr (stream_of (filter (\<lambda>c. \<not> no_delta c) example_chunks))
   \<and> fst (get_streaming_response example_env ''Say hello'' ''Be brief'' None (Some example_client))
       = fst (get_streaming_response example_env ''Say hello'' ''Be brief'' None (Some compact_client))
   \<and> displayed (snd (get_streaming_response example_env ''Say hello'' ''Be brief'' None
         (Some example_client)))
       = displayed (snd (get_streaming_response example_env ''Say hello'' ''Be brief'' None
         (Some compact_client)))
   \<and> no_delta (text_chunk '''') \<and> text_chunk '''' \<in> set example_chunks
   \<and> loop_body (text_chunk '''') ''Hel'' = Inr ''Hel''
   \<and> list_all delta_present example_chunks
   \<and> fst (for_chunk (stream_of example_chunks) []) = Inr ''Hello, World!''"
proof -
  have member: "text_chunk '''' \<in> set example_chunks"
    by (simp add: example_chunks_def)
  have empty: "no_delta (text_chunk '''')"
    by (simp add: no_delta_def text_chunk_def)
  have typed: "list_all delta_present example_chunks"
    by (simp add: example_defs)
  have facts: "fst (get_streaming_response example_env ''Say hello'' ''Be brief'' None
        (Some example_client))
      = fst (get_streaming_response example_env ''Say hello'' ''Be brief'' None
        (Some compact_client))
    \<and> displayed (snd (get_streaming_response example_env ''Say hello'' ''Be brief'' None
        (Some example_client)))
      = displayed (snd (get_streaming_response example_env ''Say hello'' ''Be brief'' None
        (Some compact_client)))
    \<and> (\<forall>c \<in> set example_chunks. no_delta c \<longrightarrow> (\<forall>acc. loop_body c acc = Inr acc))
    \<and> (list_all delta_present example_chunks \<longrightarrow>
         fst (for_chunk (stream_of example_chunks) [])
           = Inr (concat (map fragment_delta (filter (\<lambda>c. \<not> no_delta c) example_chunks))))"
    using empty_fragment_tolerance [of example_env "Some example_client" example_client
        "Some compact_client" compact_client "''Say hello''" "''Be brief''" None example_chunks]
    by (simp add: example_defs)
  from facts member empty have body: "loop_body (text_chunk '''') ''Hel'' = Inr ''Hel''"
    by blast
  from facts typed have loop: "fst (for_chunk (stream_of example_chunks) [])
      = Inr (concat (map fragment_delta (filter (\<lambda>c. \<not> no_delta c) example_chunks)))"
    by blast
  have joined: "concat (map fragment_delta (filter (\<lambda>c. \<not> no_delta c) example_chunks))
      = ''Hello, World!''"
    by (simp add: example_defs)
  have rest: "fst (resolve_client example_env (Some example_client)) = Inr example_client
    \<and> fst (resolve_client example_env (Some compact_client)) = Inr compact_client
    \<and> create example_client (outbound_request ''Say hello'' ''Be brief'' None)
        = Inr (stream_of example_chunks)
    \<and> filter (\<lambda>c. \<not> no_delta c) example_chunks = map text_chunk [''Hel'', ''lo, '', ''World!'']
    \<and> create compact_client (outbound_request ''Say hello'' ''Be brief'' None)
        = Inr (stream_of (filter (\<lambda>c. \<not> no_delta c) example_chunks))"
    by (simp add: example_defs)
  from facts rest member empty body typed loop joined show ?thesis by simp
qed



text \<open>
  Claim C6: as stated, the claim fails. The handle below delivers one fragment and drops
  the connection: the exception leaves the function and the stream handle was never given
  back.
\<close>

theorem handle_never_released_counterexample:
  "create dropping_client (outbound_request ''Say hello'' ''Be brief'' None)
       = Inr (failing_stream [text_chunk ''Hel''] (Exn ''connection dropped''))
   \<and> fst (get_streaming_response example_env ''Say hello'' ''Be brief'' None (Some dropping_client))
       = Inl (Exn ''connection dropped'')
   \<and> \<not> released (snd (get_streaming_response example_env ''Say hello'' ''Be brief'' None
         (Some dropping_client)))"
  by (simp add: example_defs get_streaming_response_def loop_body_def)

text \<open>
  Claim C6: as amended: \<^verbatim>\<open>get_streaming_response\<close> gives the stream handle back
  on no exit path (it has no scoped block and no call of \<^verbatim>\<open>close\<close>); when the
  stream delivers all its fragments, the function has iterated it to its end before it
  calls the display: after the request come one call of \<^verbatim>\<open>next\<close> for each
  fragment and one that meets the end of the stream, and then the one call of the display.
\<close>

theorem stream_drained_not_released:
  "\<not> released (snd (get_streaming_response e prompt system_prompt model_arg client_arg))
   \<and> (fst (resolve_client e client_arg) = Inr cl
        \<and> create cl (outbound_request prompt system_prompt model_arg) = Inr (stream_of cs)
        \<and> list_all delta_present cs
      \<longrightarrow> nexts (snd (get_streaming_response e prompt system_prompt model_arg client_arg))
            = Suc (length cs)
          \<and> snd (get_streaming_response e prompt system_prompt model_arg client_arg)
            = snd (resolve_client e client_arg)
                @ [CallCreate (client_id cl) (outbound_request prompt system_prompt model_arg)]
                @ replicate (Suc (length cs)) CallNext
                @ [CallDisplay (concat (map fragment_delta cs))])"
  using released_run [of e prompt system_prompt model_arg client_arg]
    nexts_run_complete [of e client_arg cl prompt system_prompt model_arg cs]
    calls_run_complete [of e client_arg cl prompt system_prompt model_arg cs]
  by blast

text \<open>
  The scenario: the request, five calls of \<^verbatim>\<open>next\<close> for four fragments, the
  display, and no release.
\<close>

theorem stream_drained_not_released_witness:
  "\<not> released (snd (get_streaming_response example_env ''Say hello'' ''Be brief'' None
         (Some example_client)))
   \<and> fst (resolve_client example_env (Some example_client)) = Inr example_client
   \<and> create example_client (outbound_request ''Say hello'' ''Be brief'' None)
       = Inr (stream_of example_chunks)
   \<and> list_all delta_present example_chunks
   \<and> nexts (snd (get_streaming_response example_env ''Say hello'' ''Be brief'' None
         (Some example_client))) = 5
   \<and> snd (get_streaming_response example_env ''Say hello'' ''Be brief'' None
         (Some example_client))
       = [CallCreate 1 (outbound_request ''Say hello'' ''Be brief'' None),
          CallNext, CallNext, CallNext, CallNext, CallNext, CallDisplay ''Hello, World!'']"
  using stream_drained_not_released [of example_env "''Say hello''" "''Be brief''" None
      "Some example_client" example_client example_chunks]
  by (simp add: example_defs)

text \<open>
  Claim C7: a call that omits \<^verbatim>\<open>model\<close> sends the request with the model
  \<^verbatim>\<open>gpt-4o-mini\<close>, the same constant for every call.
\<close>

theorem default_model_used:
  "map (\<lambda>(i, r). model r)
       (requests (snd (get_streaming_response e prompt system_prompt None client_arg))) =
     (case fst (resolve_client e client_arg) of
        Inl x \<Rightarrow> []
      | Inr cl \<Rightarrow> [''gpt-4o-mini''])"
  by (simp add: requests_run outbound_request_def model_or_default_def default_model_def
      split: sum.splits)

text \<open>
  The scenario, without a model.
\<close>

theorem default_model_used_witness:
  "map (\<lambda>(i, r). model r)
       (requests (snd (get_streaming_response example_env ''Say hello'' ''Be brief'' None
          (Some example_client)))) = [''gpt-4o-mini'']"
  using default_model_used [of example_env "''Say hello''" "''Be brief''" "Some example_client"]
  by (simp add: example_defs)



text \<open>
  Claim C9: only the first choice of a fragment is read. Two sequences of fragments that
  agree once every fragment is cut down to its first choice give the same returned value
  and the same displayed text, whatever the additional choices carry.
\<close>

theorem additional_choices_ignored:
  assumes "fst (resolve_client e client_arg) = Inr cl"
    and "fst (resolve_client e client_arg') = Inr cl'"
    and "create cl (outbound_request prompt system_prompt model_arg) = Inr (stream_of cs)"
    and "create cl' (outbound_request prompt system_prompt model_arg) = Inr (stream_of cs')"
    and "map first_choice_only cs = map first_choice_only cs'"
  shows "fst (get_streaming_response e prompt system_prompt model_arg client_arg)
           = fst (get_streaming_response e prompt system_prompt model_arg client_arg')
       \<and> displayed (snd (get_streaming_response e prompt system_prompt model_arg client_arg))
           = displayed (snd (get_streaming_response e prompt system_prompt model_arg client_arg'))"
proof -
  have "for_chunk (stream_of (map first_choice_only cs)) []
      = for_chunk (stream_of (map first_choice_only cs')) []"
    using assms(5) by simp
  then have same: "for_chunk (stream_of cs) [] = for_chunk (stream_of cs') []"
    by (simp only: for_chunk_first_choice)
  show ?thesis
    using result_run_stream [OF assms(1,3)] result_run_stream [OF assms(2,4)]
      displayed_run_stream [OF assms(1,3)] displayed_run_stream [OF assms(2,4)]
    by (simp only: same)
qed

text \<open>
  The scenario with additional choices carrying the texts \<^verbatim>\<open>XXX\<close>,
  \<^verbatim>\<open>YYY\<close>, \<^verbatim>\<open>ZZZ\<close> and one without a delta object: none of them reaches
  the result.
\<close>

theorem additional_choices_ignored_witness:
  "fst (resolve_client example_env (Some extra_choice_client)) = Inr extra_choice_client
   \<and> fst (resolve_client example_env (Some example_client)) = Inr example_client
   \<and> create extra_choice_client (outbound_request ''Say hello'' ''Be brief'' None)
       = Inr (stream_of extra_choice_chunks)
   \<and> create example_client (outbound_request ''Say hello'' ''Be brief'' None)
       = Inr (stream_of example_chunks)
   \<and> map first_choice_only extra_choice_chunks = map first_choice_only example_chunks
   \<and> extra_choice_chunks \<noteq> example_chunks
   \<and> fst (get_streaming_response example_env ''Say hello'' ''Be brief'' None
         (Some extra_choice_client)) = Inr ''Hello, World!''
   \<and> displayed (snd (get_streaming_response example_env ''Say hello'' ''Be brief'' None
         (Some extra_choice_client))) = [''Hello, World!'']"
proof -
  have ex: "get_streaming_response example_env ''Say hello'' ''Be brief'' None (Some example_client)
      = (Inr ''Hello, World!'',
         [CallCreate 1 (outbound_request ''Say hello'' ''Be brief'' None),
          CallNext, CallNext, CallNext, CallNext, CallNext, CallDisplay ''Hello, World!''])"
    by (simp add: example_defs get_streaming_response_def loop_body_def)
  show ?thesis
    using additional_choices_ignored [of example_env "Some extra_choice_client"
        extra_choice_client "Some example_client" example_client
        "''Say hello''" "''Be brief''" None extra_choice_chunks example_chunks]
    by (simp add: ex) (simp add: example_defs)
qed

text \<open>
  Claim C10: two runs whose fragment sequences have the same sequence of text deltas, with
  displays that behave alike, return the same value and display the same text, whatever
  prompt, system prompt, model and handle each is called with. The fragments are as the
  client library types them: a first choice has a delta object.
\<close>

theorem accumulation_deterministic:
  assumes "fst (resolve_client e1 client_arg1) = Inr cl1"
    and "fst (resolve_client e2 client_arg2) = Inr cl2"
    and "create cl1 (outbound_request prompt1 system_prompt1 model_arg1) = Inr (stream_of cs1)"
    and "create cl2 (outbound_request prompt2 system_prompt2 model_arg2) = Inr (stream_of cs2)"
    and "list_all delta_present cs1"
    and "list_all delta_present cs2"
    and "map fragment_delta cs1 = map fragment_delta cs2"
    and "display e1 = display e2"
  shows "fst (get_streaming_response e1 prompt1 system_prompt1 model_arg1 client_arg1)
           = fst (get_streaming_response e2 prompt2 system_prompt2 model_arg2 client_arg2)
       \<and> displayed (snd (get_streaming_response e1 prompt1 system_prompt1 model_arg1 client_arg1))
           = displayed (snd (get_streaming_response e2 prompt2 system_prompt2 model_arg2 client_arg2))"
  using result_run_complete [OF assms(1,3,5)] result_run_complete [OF assms(2,4,6)]
    displayed_run_complete [OF assms(1,3,5)] displayed_run_complete [OF assms(2,4,6)]
  by (simp add: assms(7,8) split: option.splits)

text \<open>
  Two runs that differ in prompt, system prompt, model, handle and in the additional
  choices of the fragments.
\<close>

theorem accumulation_deterministic_witness:
  "fst (resolve_client example_env (Some example_client)) = Inr example_client
   \<and> fst (resolve_client relay_env None) = Inr extra_choice_client
   \<and> create example_client (outbound_request ''Say hello'' ''Be brief'' None)
       = Inr (stream_of example_chunks)
   \<and> create extra_choice_client (outbound_request ''Greet me'' ''Be formal'' (Some ''gpt-4''))
       = Inr (stream_of extra_choice_chunks)
   \<and> list_all delta_present example_chunks
   \<and> list_all delta_present extra_choice_chunks
   \<and> map fragment_delta example_chunks = map fragment_delta extra_choice_chunks
   \<and> display example_env = display relay_env
   \<and> fst (get_streaming_response example_env ''Say hello'' ''Be brief'' None (Some example_client))
       = fst (get_streaming_response relay_env ''Greet me'' ''Be formal'' (Some ''gpt-4'') None)
   \<and> displayed (snd (get_streaming_response example_env ''Say hello'' ''Be brief'' None
         (Some example_client)))
       = displayed (snd (get_streaming_response relay_env ''Greet me'' ''Be formal''
         (Some ''gpt-4'') None))"
  using accumulation_deterministic [of example_env "Some example_client" example_client
      relay_env None extra_choice_client "''Say hello''" "''Be brief''" None example_chunks
      "''Greet me''" "''Be formal''" "Some ''gpt-4''" extra_choice_chunks]
  by (simp add: example_defs)

end
